theory Spec2Isabelle
  imports Complex_Main
begin

section \<open>Tensors and errors\<close>

text \<open>
  The program is \<^verbatim>\<open>keras/gpt.py\<close>: a single attention head, a multi-head wrapper, a
  feed-forward sublayer, a transformer block and the top-level layer. Tensors are modelled
  as a static shape together with an entry function, numbers are exact reals, and the
  layers of the Keras library are modelled by their documented computation. Every raise of
  the program is a value \<open>Inl e\<close>.
\<close>

datatype error = ValueError | AssertionError | ZeroDivisionError | InvalidArgumentError

definition bind :: "error + 'a \<Rightarrow> ('a \<Rightarrow> error + 'b) \<Rightarrow> error + 'b" where
  "bind r f = (case r of Inl e \<Rightarrow> Inl e | Inr v \<Rightarrow> f v)"

record tensor3 =
  dimB :: nat
  dimT :: nat
  dimC :: nat
  at3 :: "nat \<Rightarrow> nat \<Rightarrow> nat \<Rightarrow> real"

record tensor2 =
  rows :: nat
  cols :: nat
  at2 :: "nat \<Rightarrow> nat \<Rightarrow> real"

definition shape3 :: "tensor3 \<Rightarrow> nat \<times> nat \<times> nat" where
  "shape3 x = (dimB x, dimT x, dimC x)"

text \<open>The module-level binding \<^verbatim>\<open>B, T, C = 32, 8, 5\<close> (line 132).\<close>

definition B_global :: nat where "B_global = 32"
definition T_global :: nat where "T_global = 8"
definition C_global :: nat where "C_global = 5"

subsection \<open>Library operations\<close>

text \<open>\<^verbatim>\<open>np.tril(np.ones((n, n)))\<close>: one on and below the diagonal, zero above.\<close>

definition np_tril_ones :: "nat \<Rightarrow> tensor2" where
  "np_tril_ones n = \<lparr>rows = n, cols = n, at2 = (\<lambda>i j. if j \<le> i then 1 else 0)\<rparr>"

text \<open>
  \<^verbatim>\<open>layers.Dense(units, activation=None, use_bias=...)\<close>. Keras creates the kernel at the
  first call, with as many rows as the input has channels; \<open>in_dim\<close> is that number, and
  a later input with another channel count is rejected.
\<close>

record dense =
  units :: nat
  use_bias :: bool
  in_dim :: nat
  kernel :: "nat \<Rightarrow> nat \<Rightarrow> real"
  bias :: "nat \<Rightarrow> real"

definition Dense_call :: "dense \<Rightarrow> tensor3 \<Rightarrow> error + tensor3" where
  "Dense_call d x =
     (if dimC x \<noteq> in_dim d then Inl ValueError
      else Inr \<lparr>dimB = dimB x, dimT = dimT x, dimC = units d,
                at3 = (\<lambda>b t u. (\<Sum>c<in_dim d. at3 x b t c * kernel d c u)
                                 + (if use_bias d then bias d u else 0))\<rparr>)"

text \<open>\<^verbatim>\<open>K.permute_dimensions(k, (0, 2, 1))\<close>: the last two axes change places.\<close>

definition permute_dimensions_021 :: "tensor3 \<Rightarrow> tensor3" where
  "permute_dimensions_021 k =
     \<lparr>dimB = dimB k, dimT = dimC k, dimC = dimT k, at3 = (\<lambda>b c t. at3 k b t c)\<rparr>"

text \<open>
  \<^verbatim>\<open>tf.matmul(a, b)\<close> on two rank-3 tensors: a matrix product per batch element. The
  program only multiplies tensors that come from the same input, so their batch sizes are
  equal; other batch sizes are reported as an error here.
\<close>

definition matmul :: "tensor3 \<Rightarrow> tensor3 \<Rightarrow> error + tensor3" where
  "matmul a b =
     (if dimB a \<noteq> dimB b \<or> dimC a \<noteq> dimT b then Inl InvalidArgumentError
      else Inr \<lparr>dimB = dimB a, dimT = dimT a, dimC = dimC b,
                at3 = (\<lambda>n i j. \<Sum>k<dimC a. at3 a n i k * at3 b n k j)\<rparr>)"

definition scale_div :: "tensor3 \<Rightarrow> real \<Rightarrow> tensor3" where
  "scale_div x s = x\<lparr>at3 := (\<lambda>b i j. at3 x b i j / s)\<rparr>"

text \<open>Broadcasting of one axis: equal sizes, or one of them is 1.\<close>

definition broadcast_dim :: "nat \<Rightarrow> nat \<Rightarrow> nat option" where
  "broadcast_dim a b =
     (if a = b then Some a else if a = 1 then Some b else if b = 1 then Some a else None)"

definition bidx :: "nat \<Rightarrow> nat \<Rightarrow> nat" where
  "bidx n i = (if n = 1 then 0 else i)"

text \<open>
  \<^verbatim>\<open>layers.Softmax(axis=-1)(wei, mask)\<close>. The mask is 1 for an entry to keep and 0 for an
  entry to drop. Keras adds \<open>(1 - mask) * (-1e9)\<close> to the scores, the mask broadcast
  against them, and takes the softmax of the sum along the last axis: a dropped score is
  lowered by \<open>10 ^ 9\<close>, it is not removed.
\<close>

definition large_compatible_negative :: real where
  "large_compatible_negative = - (10 ^ 9)"

definition Softmax_call :: "tensor3 \<Rightarrow> tensor2 \<Rightarrow> error + tensor3" where
  "Softmax_call x m =
     (case (broadcast_dim (dimT x) (rows m), broadcast_dim (dimC x) (cols m)) of
        (Some r, Some c) \<Rightarrow>
          Inr \<lparr>dimB = dimB x, dimT = r, dimC = c,
               at3 = (\<lambda>b i j.
                 exp (at3 x b (bidx (dimT x) i) (bidx (dimC x) j)
                      + (1 - at2 m (bidx (rows m) i) (bidx (cols m) j)) * large_compatible_negative)
                 / (\<Sum>j'<c. exp (at3 x b (bidx (dimT x) i) (bidx (dimC x) j')
                      + (1 - at2 m (bidx (rows m) i) (bidx (cols m) j'))
                        * large_compatible_negative)))\<rparr>
      | _ \<Rightarrow> Inl InvalidArgumentError)"

text \<open>
  \<^verbatim>\<open>layers.Dropout(rate)\<close>. The layer refuses a rate outside \<open>[0, 1]\<close> with a
  ValueError when it is created, which in this program happens in the \<^verbatim>\<open>build\<close> of the
  layer that owns it; the model reports that error when the dropout is applied, so a layer
  with such a rate never returns a result. Applied, the layer is the identity outside
  training and at rate 0; in training a rate of 1 is refused with a ValueError, and for a
  rate below 1 the entries that the random draw \<open>keep\<close> does not keep become zero and the
  others are scaled by \<open>1 / (1 - rate)\<close>.
\<close>

definition Dropout_call ::
  "real \<Rightarrow> bool \<Rightarrow> (nat \<Rightarrow> nat \<Rightarrow> nat \<Rightarrow> bool) \<Rightarrow> tensor3 \<Rightarrow> error + tensor3" where
  "Dropout_call rate training keep x =
     (if rate < 0 \<or> 1 < rate then Inl ValueError
      else if training \<and> rate \<noteq> 0
      then (if rate = 1 then Inl ValueError
            else Inr (x\<lparr>at3 := (\<lambda>b i j. if keep b i j then at3 x b i j / (1 - rate) else 0)\<rparr>))
      else Inr x)"

section \<open>Head\<close>

record head_cfg =
  head_size :: nat
  seq_len :: nat
  dropout_rate :: real

record head = head_cfg +
  head_key :: dense
  head_query :: dense
  head_value :: dense
  head_mask :: tensor2

definition Head_init :: "nat \<Rightarrow> nat \<Rightarrow> real \<Rightarrow> head_cfg" where
  "Head_init hs sl dropout = \<lparr>head_size = hs, seq_len = sl, dropout_rate = dropout\<rparr>"

text \<open>
  \<^verbatim>\<open>Head.build\<close>: three bias-free dense layers of \<open>head_size\<close> units and the
  lower-triangular mask of the configured sequence length. \<open>c\<close> is the channel count of
  the first input, \<open>wk\<close>, \<open>wq\<close>, \<open>wv\<close> the kernels drawn at that moment. The
  dropout layer created here is represented by its rate; its refusal of a rate outside
  \<open>[0, 1]\<close> is reported by \<open>Dropout_call\<close>.
\<close>

definition Head_build ::
  "head_cfg \<Rightarrow> nat \<Rightarrow> (nat \<Rightarrow> nat \<Rightarrow> real) \<Rightarrow> (nat \<Rightarrow> nat \<Rightarrow> real) \<Rightarrow> (nat \<Rightarrow> nat \<Rightarrow> real) \<Rightarrow> head" where
  "Head_build cfg c wk wq wv =
     \<lparr>head_size = head_size cfg, seq_len = seq_len cfg, dropout_rate = dropout_rate cfg,
      head_key = \<lparr>units = head_size cfg, use_bias = False, in_dim = c, kernel = wk, bias = (\<lambda>_. 0)\<rparr>,
      head_query = \<lparr>units = head_size cfg, use_bias = False, in_dim = c, kernel = wq, bias = (\<lambda>_. 0)\<rparr>,
      head_value = \<lparr>units = head_size cfg, use_bias = False, in_dim = c, kernel = wv, bias = (\<lambda>_. 0)\<rparr>,
      head_mask = np_tril_ones (seq_len cfg)\<rparr>"

text \<open>Lines 30 to 36 of \<^verbatim>\<open>Head.call\<close>: the scaled affinities.\<close>

definition Head_scores :: "head \<Rightarrow> tensor3 \<Rightarrow> error + tensor3" where
  "Head_scores h x =
     bind (Dense_call (head_key h) x) (\<lambda>k.
     bind (Dense_call (head_query h) x) (\<lambda>q.
     bind (matmul q (permute_dimensions_021 k)) (\<lambda>wei.
     Inr (scale_div wei (sqrt (real C_global))))))"

text \<open>Lines 37 and 38: the masked softmax and the dropout on the weights.\<close>

definition Head_weights ::
  "head \<Rightarrow> bool \<Rightarrow> (nat \<Rightarrow> nat \<Rightarrow> nat \<Rightarrow> bool) \<Rightarrow> tensor3 \<Rightarrow> error + tensor3" where
  "Head_weights h training keep x =
     bind (Head_scores h x) (\<lambda>wei.
     bind (Softmax_call wei (head_mask h)) (\<lambda>wei.
     Dropout_call (dropout_rate h) training keep wei))"

text \<open>Lines 41 to 46: the weighted aggregation of the values and the shape assertion.\<close>

definition Head_call ::
  "head \<Rightarrow> bool \<Rightarrow> (nat \<Rightarrow> nat \<Rightarrow> nat \<Rightarrow> bool) \<Rightarrow> tensor3 \<Rightarrow> error + tensor3" where
  "Head_call h training keep x =
     bind (Head_weights h training keep x) (\<lambda>wei.
     bind (Dense_call (head_value h) x) (\<lambda>v.
     bind (matmul wei v) (\<lambda>out.
     if dimT out = seq_len h \<and> dimC out = head_size h then Inr out
     else Inl AssertionError)))"

text \<open>
  The entries of the intermediate tensors of \<^verbatim>\<open>Head.call\<close>, written out: the raw
  affinity of line 35 between the query at position \<open>i\<close> and the key at position \<open>j\<close>,
  and the numerator of the softmax of line 37, the exponential of the scaled score of
  line 36 plus the addend of the mask.
\<close>

definition head_raw ::
  "(nat \<Rightarrow> nat \<Rightarrow> real) \<Rightarrow> (nat \<Rightarrow> nat \<Rightarrow> real) \<Rightarrow> nat \<Rightarrow> nat \<Rightarrow> tensor3 \<Rightarrow> nat \<Rightarrow> nat \<Rightarrow> nat \<Rightarrow> real" where
  "head_raw wk wq H C x b i j =
     (\<Sum>h<H. (\<Sum>c<C. at3 x b i c * wq c h) * (\<Sum>c<C. at3 x b j c * wk c h))"

definition head_e ::
  "(nat \<Rightarrow> nat \<Rightarrow> real) \<Rightarrow> (nat \<Rightarrow> nat \<Rightarrow> real) \<Rightarrow> nat \<Rightarrow> nat \<Rightarrow> tensor3 \<Rightarrow> nat \<Rightarrow> nat \<Rightarrow> nat \<Rightarrow> real" where
  "head_e wk wq H C x b i j =
     exp (head_raw wk wq H C x b i j / sqrt (real C_global)
          + (1 - (if j \<le> i then 1 else 0)) * large_compatible_negative)"

subsection \<open>More library layers\<close>

text \<open>
  Elementwise addition with numpy broadcasting on every axis. In the program both operands
  always have the same batch size and sequence length; only the channel axis can differ.
\<close>

definition tensor_add :: "tensor3 \<Rightarrow> tensor3 \<Rightarrow> error + tensor3" where
  "tensor_add x y =
     (case (broadcast_dim (dimB x) (dimB y), broadcast_dim (dimT x) (dimT y),
            broadcast_dim (dimC x) (dimC y)) of
        (Some b, Some t, Some c) \<Rightarrow>
          Inr \<lparr>dimB = b, dimT = t, dimC = c,
               at3 = (\<lambda>n i j. at3 x (bidx (dimB x) n) (bidx (dimT x) i) (bidx (dimC x) j)
                             + at3 y (bidx (dimB y) n) (bidx (dimT y) i) (bidx (dimC y) j))\<rparr>
      | _ \<Rightarrow> Inl InvalidArgumentError)"

text \<open>
  \<^verbatim>\<open>layers.LayerNormalization(epsilon=...)\<close>: every position is normalised over its
  channels with the mean and the variance of that position, then scaled and shifted by the
  layer's own \<open>gamma\<close> and \<open>beta\<close>.
\<close>

record ln_weights =
  gamma :: "nat \<Rightarrow> real"
  beta :: "nat \<Rightarrow> real"

record layernorm = ln_weights +
  epsilon :: real
  ln_dim :: nat

definition LayerNormalization :: "real \<Rightarrow> nat \<Rightarrow> ln_weights \<Rightarrow> layernorm" where
  "LayerNormalization eps c w = \<lparr>gamma = gamma w, beta = beta w, epsilon = eps, ln_dim = c\<rparr>"

definition ln_mean :: "tensor3 \<Rightarrow> nat \<Rightarrow> nat \<Rightarrow> real" where
  "ln_mean x b t = (\<Sum>c<dimC x. at3 x b t c) / real (dimC x)"

definition ln_var :: "tensor3 \<Rightarrow> nat \<Rightarrow> nat \<Rightarrow> real" where
  "ln_var x b t = (\<Sum>c<dimC x. (at3 x b t c - ln_mean x b t)\<^sup>2) / real (dimC x)"

definition LayerNormalization_call :: "layernorm \<Rightarrow> tensor3 \<Rightarrow> error + tensor3" where
  "LayerNormalization_call l x =
     (if dimC x \<noteq> ln_dim l then Inl ValueError
      else Inr (x\<lparr>at3 := (\<lambda>b t c. gamma l c * ((at3 x b t c - ln_mean x b t)
                                      / sqrt (ln_var x b t + epsilon l)) + beta l c)\<rparr>))"

text \<open>
  \<^verbatim>\<open>layers.Conv1D(filters=f, kernel_size=1, activation=...)\<close>: with a kernel of size 1 the
  convolution is the same affine map at every position, followed by the activation.
\<close>

record affine_weights =
  aw_kernel :: "nat \<Rightarrow> nat \<Rightarrow> real"
  aw_bias :: "nat \<Rightarrow> real"

record conv1d = affine_weights +
  filters :: nat
  conv_in :: nat
  relu :: bool

definition Conv1D :: "nat \<Rightarrow> bool \<Rightarrow> nat \<Rightarrow> affine_weights \<Rightarrow> conv1d" where
  "Conv1D f act c w =
     \<lparr>aw_kernel = aw_kernel w, aw_bias = aw_bias w, filters = f, conv_in = c, relu = act\<rparr>"

definition Conv1D_call :: "conv1d \<Rightarrow> tensor3 \<Rightarrow> error + tensor3" where
  "Conv1D_call cv x =
     (if dimC x \<noteq> conv_in cv then Inl ValueError
      else Inr \<lparr>dimB = dimB x, dimT = dimT x, dimC = filters cv,
                at3 = (\<lambda>b t f.
                  let z = (\<Sum>c<conv_in cv. at3 x b t c * aw_kernel cv c f) + aw_bias cv f
                  in if relu cv then max 0 z else z)\<rparr>)"

section \<open>multi_head_self_attention_layer\<close>

text \<open>
  \<^verbatim>\<open>layers.MultiHeadAttention(key_dim, num_heads, output_shape, dropout)\<close>. Each head has
  its own affine query, key and value projections; the query is scaled by
  \<open>1 / sqrt key_dim\<close>; the scores of a head are normalised by a softmax over the key
  positions, over those that \<open>attention_mask\<close> allows when one is given and over all of
  them when it is \<open>None\<close>; dropout acts on the weights; the heads' results go through
  one affine output projection of \<open>output_shape\<close> channels.
\<close>

record mha_weights =
  w_query :: "nat \<Rightarrow> nat \<Rightarrow> nat \<Rightarrow> real"
  b_query :: "nat \<Rightarrow> nat \<Rightarrow> real"
  w_key :: "nat \<Rightarrow> nat \<Rightarrow> nat \<Rightarrow> real"
  b_key :: "nat \<Rightarrow> nat \<Rightarrow> real"
  w_value :: "nat \<Rightarrow> nat \<Rightarrow> nat \<Rightarrow> real"
  b_value :: "nat \<Rightarrow> nat \<Rightarrow> real"
  w_out :: "nat \<Rightarrow> nat \<Rightarrow> nat \<Rightarrow> real"
  b_out :: "nat \<Rightarrow> real"

record mha = mha_weights +
  key_dim :: nat
  num_heads :: nat
  output_shape :: nat
  mha_dropout :: real
  mha_in :: nat

definition MultiHeadAttention :: "nat \<Rightarrow> nat \<Rightarrow> nat \<Rightarrow> real \<Rightarrow> nat \<Rightarrow> mha_weights \<Rightarrow> mha" where
  "MultiHeadAttention kd nh os dropout c w =
     \<lparr>w_query = w_query w, b_query = b_query w, w_key = w_key w, b_key = b_key w, w_value = w_value w, b_value = b_value w, w_out = w_out w, b_out = b_out w,
      key_dim = kd, num_heads = nh, output_shape = os, mha_dropout = dropout, mha_in = c\<rparr>"

definition mha_query :: "mha \<Rightarrow> tensor3 \<Rightarrow> nat \<Rightarrow> nat \<Rightarrow> nat \<Rightarrow> nat \<Rightarrow> real" where
  "mha_query m x b t n h = (\<Sum>c<mha_in m. at3 x b t c * w_query m c n h) + b_query m n h"

definition mha_key :: "mha \<Rightarrow> tensor3 \<Rightarrow> nat \<Rightarrow> nat \<Rightarrow> nat \<Rightarrow> nat \<Rightarrow> real" where
  "mha_key m x b s n h = (\<Sum>c<mha_in m. at3 x b s c * w_key m c n h) + b_key m n h"

definition mha_value :: "mha \<Rightarrow> tensor3 \<Rightarrow> nat \<Rightarrow> nat \<Rightarrow> nat \<Rightarrow> nat \<Rightarrow> real" where
  "mha_value m x b s n h = (\<Sum>c<mha_in m. at3 x b s c * w_value m c n h) + b_value m n h"

definition mha_scores :: "mha \<Rightarrow> tensor3 \<Rightarrow> nat \<Rightarrow> nat \<Rightarrow> nat \<Rightarrow> nat \<Rightarrow> real" where
  "mha_scores m x b n t s =
     (\<Sum>h<key_dim m. mha_query m x b t n h * (1 / sqrt (real (key_dim m))) * mha_key m x b s n h)"

definition mha_allowed :: "(nat \<Rightarrow> nat \<Rightarrow> nat \<Rightarrow> bool) option \<Rightarrow> nat \<Rightarrow> nat \<Rightarrow> nat \<Rightarrow> real" where
  "mha_allowed attention_mask b t s =
     (case attention_mask of None \<Rightarrow> 1 | Some a \<Rightarrow> if a b t s then 1 else 0)"

definition mha_weights_of ::
  "mha \<Rightarrow> (nat \<Rightarrow> nat \<Rightarrow> nat \<Rightarrow> bool) option \<Rightarrow> bool \<Rightarrow> (nat \<Rightarrow> nat \<Rightarrow> nat \<Rightarrow> nat \<Rightarrow> bool) \<Rightarrow> tensor3
     \<Rightarrow> nat \<Rightarrow> nat \<Rightarrow> nat \<Rightarrow> nat \<Rightarrow> real" where
  "mha_weights_of m attention_mask training keep x b n t s =
     (let p = mha_allowed attention_mask b t s * exp (mha_scores m x b n t s)
              / (\<Sum>s'<dimT x. mha_allowed attention_mask b t s' * exp (mha_scores m x b n t s'))
      in if training \<and> mha_dropout m \<noteq> 0
         then (if keep b n t s then p / (1 - mha_dropout m) else 0)
         else p)"

definition MultiHeadAttention_call ::
  "mha \<Rightarrow> tensor3 \<Rightarrow> (nat \<Rightarrow> nat \<Rightarrow> nat \<Rightarrow> bool) option \<Rightarrow> bool \<Rightarrow> (nat \<Rightarrow> nat \<Rightarrow> nat \<Rightarrow> nat \<Rightarrow> bool)
     \<Rightarrow> error + tensor3" where
  "MultiHeadAttention_call m x attention_mask training keep =
     (if dimC x \<noteq> mha_in m then Inl ValueError
      else Inr \<lparr>dimB = dimB x, dimT = dimT x, dimC = output_shape m,
                at3 = (\<lambda>b t e.
                  (\<Sum>n<num_heads m. \<Sum>h<key_dim m.
                      (\<Sum>s<dimT x. mha_weights_of m attention_mask training keep x b n t s
                                     * mha_value m x b s n h) * w_out m n h e)
                  + b_out m e)\<rparr>)"

text \<open>
  \<^verbatim>\<open>multi_head_self_attention_layer(num_heads, head_size, dropout=0.)\<close> creates the layer
  and returns the closure \<^verbatim>\<open>_call\<close>; the model returns the layer and gives the closure's
  body as \<open>sa_call\<close>. An omitted \<^verbatim>\<open>dropout\<close> argument is \<open>None\<close>.
\<close>

definition multi_head_self_attention_layer ::
  "nat \<Rightarrow> nat \<Rightarrow> real option \<Rightarrow> nat \<Rightarrow> mha_weights \<Rightarrow> mha" where
  "multi_head_self_attention_layer nh hs dropout c w =
     MultiHeadAttention hs nh (nh * hs) (case dropout of None \<Rightarrow> 0 | Some d \<Rightarrow> d) c w"

definition sa_call ::
  "mha \<Rightarrow> bool \<Rightarrow> (nat \<Rightarrow> nat \<Rightarrow> nat \<Rightarrow> nat \<Rightarrow> bool) \<Rightarrow> tensor3 \<Rightarrow> error + tensor3" where
  "sa_call m training keep x = MultiHeadAttention_call m x None training keep"

section \<open>FeedForward\<close>

record feedforward_cfg =
  ff_n_embd :: nat
  ff_dropout :: real

record ff_weights =
  ffw_ln :: ln_weights
  ffw_conv1 :: affine_weights
  ffw_conv2 :: affine_weights

record feedforward = feedforward_cfg +
  net_ln :: layernorm
  net_conv1 :: conv1d
  net_conv2 :: conv1d
  net_dropout :: real

definition FeedForward_init :: "nat \<Rightarrow> real \<Rightarrow> feedforward_cfg" where
  "FeedForward_init n dropout = \<lparr>ff_n_embd = n, ff_dropout = dropout\<rparr>"

text \<open>
  \<^verbatim>\<open>FeedForward.build\<close>: the sequential network of lines 69 to 74. \<open>c\<close> is the channel
  count of the first input; the second convolution is built on the 4 channels that the
  first one produces. The dropout layer is represented by its rate; its refusal of a rate
  outside \<open>[0, 1]\<close> is reported by \<open>Dropout_call\<close>. Keras runs this \<^verbatim>\<open>build\<close> at the
  first call of the layer, so the refusal surfaces in the call of the block.
\<close>

definition FeedForward_build :: "feedforward_cfg \<Rightarrow> nat \<Rightarrow> ff_weights \<Rightarrow> feedforward" where
  "FeedForward_build cfg c w =
     \<lparr>ff_n_embd = ff_n_embd cfg, ff_dropout = ff_dropout cfg,
      net_ln = LayerNormalization (1 / 10 ^ 6) c (ffw_ln w),
      net_conv1 = Conv1D 4 True c (ffw_conv1 w),
      net_conv2 = Conv1D (ff_n_embd cfg) False 4 (ffw_conv2 w),
      net_dropout = ff_dropout cfg\<rparr>"

text \<open>The activation after the first convolution, the hidden layer of the network.\<close>

definition FeedForward_hidden :: "feedforward \<Rightarrow> tensor3 \<Rightarrow> error + tensor3" where
  "FeedForward_hidden ff x =
     bind (LayerNormalization_call (net_ln ff) x) (\<lambda>y. Conv1D_call (net_conv1 ff) y)"

definition FeedForward_call ::
  "feedforward \<Rightarrow> bool \<Rightarrow> (nat \<Rightarrow> nat \<Rightarrow> nat \<Rightarrow> bool) \<Rightarrow> tensor3 \<Rightarrow> error + tensor3" where
  "FeedForward_call ff training keep x =
     bind (FeedForward_hidden ff x) (\<lambda>y.
     bind (Conv1D_call (net_conv2 ff) y) (\<lambda>z.
     Dropout_call (net_dropout ff) training keep z))"

section \<open>Block\<close>

record block_cfg =
  n_embd :: int
  n_head :: int
  block_head_size :: int
  block_dropout :: real

text \<open>
  \<^verbatim>\<open>Block.__init__\<close>. The assertion is the first statement; \<^verbatim>\<open>%\<close> raises
  ZeroDivisionError on a zero divisor, and \<^verbatim>\<open>%\<close> and \<^verbatim>\<open>//\<close> round towards minus
  infinity, as \<open>mod\<close> and \<open>div\<close> on \<open>int\<close> do.
\<close>

definition Block_init :: "int \<Rightarrow> int \<Rightarrow> real \<Rightarrow> error + block_cfg" where
  "Block_init ne nh dropout =
     (if nh = 0 then Inl ZeroDivisionError
      else if ne mod nh \<noteq> 0 then Inl AssertionError
      else Inr \<lparr>n_embd = ne, n_head = nh, block_head_size = ne div nh,
                block_dropout = dropout\<rparr>)"

record block_weights =
  bw_sa :: mha_weights
  bw_ffwd :: ff_weights
  bw_ln1 :: ln_weights
  bw_ln2 :: ln_weights

record block = block_cfg +
  sa :: mha
  ffwd :: feedforward
  ln1 :: layernorm
  ln2 :: layernorm

text \<open>
  \<^verbatim>\<open>Block.build\<close>. The attention layer is created from \<^verbatim>\<open>head_size\<close> and
  \<^verbatim>\<open>num_heads\<close> alone. \<open>c\<close> is the channel count of the first input; the second
  normalisation and the feed-forward network are built on the channel count of the first
  residual sum.
\<close>

definition residual_dim :: "nat \<Rightarrow> nat \<Rightarrow> nat" where
  "residual_dim c d = (case broadcast_dim c d of Some e \<Rightarrow> e | None \<Rightarrow> c)"

definition Block_build :: "block_cfg \<Rightarrow> nat \<Rightarrow> block_weights \<Rightarrow> block" where
  "Block_build cfg c w =
     (let c2 = residual_dim c (nat (n_head cfg) * nat (block_head_size cfg)) in
      \<lparr>n_embd = n_embd cfg, n_head = n_head cfg, block_head_size = block_head_size cfg,
       block_dropout = block_dropout cfg,
       sa = multi_head_self_attention_layer (nat (n_head cfg)) (nat (block_head_size cfg))
              None c (bw_sa w),
       ffwd = FeedForward_build (FeedForward_init (nat (n_embd cfg)) (block_dropout cfg)) c2
                (bw_ffwd w),
       ln1 = LayerNormalization (1 / 10 ^ 5) c (bw_ln1 w),
       ln2 = LayerNormalization (1 / 10 ^ 5) c2 (bw_ln2 w)\<rparr>)"

text \<open>The random draws of one call of a block, one per dropout layer.\<close>

record draws =
  attn_keep :: "nat \<Rightarrow> nat \<Rightarrow> nat \<Rightarrow> nat \<Rightarrow> bool"
  ffwd_keep :: "nat \<Rightarrow> nat \<Rightarrow> nat \<Rightarrow> bool"

text \<open>Line 97: \<^verbatim>\<open>x = x + self.sa(self.ln1(x))\<close>.\<close>

definition Block_attention :: "block \<Rightarrow> bool \<Rightarrow> draws \<Rightarrow> tensor3 \<Rightarrow> error + tensor3" where
  "Block_attention blk training d x =
     bind (LayerNormalization_call (ln1 blk) x) (\<lambda>y.
     bind (sa_call (sa blk) training (attn_keep d) y) (\<lambda>a.
     tensor_add x a))"

text \<open>Line 98: \<^verbatim>\<open>x = x + self.ffwd(self.ln2(x))\<close>.\<close>

definition Block_feedforward :: "block \<Rightarrow> bool \<Rightarrow> draws \<Rightarrow> tensor3 \<Rightarrow> error + tensor3" where
  "Block_feedforward blk training d x =
     bind (LayerNormalization_call (ln2 blk) x) (\<lambda>y.
     bind (FeedForward_call (ffwd blk) training (ffwd_keep d) y) (\<lambda>f.
     tensor_add x f))"

definition Block_call :: "block \<Rightarrow> bool \<Rightarrow> draws \<Rightarrow> tensor3 \<Rightarrow> error + tensor3" where
  "Block_call blk training d x =
     bind (Block_attention blk training d x) (\<lambda>x1. Block_feedforward blk training d x1)"

section \<open>TransformerLayer\<close>

record itensor2 =
  idimB :: nat
  idimT :: nat
  iat :: "nat \<Rightarrow> nat \<Rightarrow> int"

text \<open>
  \<^verbatim>\<open>layers.Embedding(input_dim, output_dim)\<close>: a table with \<open>input_dim\<close> rows. An index
  outside \<open>0..input_dim - 1\<close> is an error (as on the CPU).
\<close>

record embedding =
  input_dim :: nat
  output_dim :: nat
  table :: "nat \<Rightarrow> nat \<Rightarrow> real"

definition Embedding_call :: "embedding \<Rightarrow> itensor2 \<Rightarrow> error + tensor3" where
  "Embedding_call e idx =
     (if (\<forall>b<idimB idx. \<forall>t<idimT idx. 0 \<le> iat idx b t \<and> iat idx b t < int (input_dim e))
      then Inr \<lparr>dimB = idimB idx, dimT = idimT idx, dimC = output_dim e,
                at3 = (\<lambda>b t c. table e (nat (iat idx b t)) c)\<rparr>
      else Inl InvalidArgumentError)"

text \<open>The lookup of \<^verbatim>\<open>tf.range(0, n)\<close>: the rows \<open>0..n - 1\<close> of the table, in order.\<close>

definition Embedding_range :: "embedding \<Rightarrow> nat \<Rightarrow> error + tensor2" where
  "Embedding_range e n =
     (if n \<le> input_dim e
      then Inr \<lparr>rows = n, cols = output_dim e, at2 = (\<lambda>t c. table e t c)\<rparr>
      else Inl InvalidArgumentError)"

text \<open>A rank-3 tensor plus a rank-2 tensor: the latter is broadcast across the batch.\<close>

definition tensor_add_rank2 :: "tensor3 \<Rightarrow> tensor2 \<Rightarrow> error + tensor3" where
  "tensor_add_rank2 x p =
     (case (broadcast_dim (dimT x) (rows p), broadcast_dim (dimC x) (cols p)) of
        (Some t, Some c) \<Rightarrow>
          Inr \<lparr>dimB = dimB x, dimT = t, dimC = c,
               at3 = (\<lambda>n i j. at3 x n (bidx (dimT x) i) (bidx (dimC x) j)
                             + at2 p (bidx (rows p) i) (bidx (cols p) j))\<rparr>
      | _ \<Rightarrow> Inl InvalidArgumentError)"

record transformer_cfg =
  vocab_size :: nat
  tl_n_embd :: int
  tl_n_head :: int
  tl_dropout :: real
  n_block :: nat

definition TransformerLayer_init :: "nat \<Rightarrow> int \<Rightarrow> int \<Rightarrow> nat \<Rightarrow> real \<Rightarrow> transformer_cfg" where
  "TransformerLayer_init v ne nh nb dropout =
     \<lparr>vocab_size = v, tl_n_embd = ne, tl_n_head = nh, tl_dropout = dropout, n_block = nb\<rparr>"

record transformer_weights =
  tw_token :: "nat \<Rightarrow> nat \<Rightarrow> real"
  tw_position :: "nat \<Rightarrow> nat \<Rightarrow> real"
  tw_blocks :: "nat \<Rightarrow> block_weights"
  tw_ln_f :: ln_weights
  tw_lm_head :: affine_weights

record transformerlayer = transformer_cfg +
  block_size :: nat
  token_embedding_table :: embedding
  position_embedding_table :: embedding
  blocks :: "block list"
  ln_f :: layernorm
  lm_head :: dense

text \<open>The list comprehension of line 116: one \<^verbatim>\<open>Block(...)\<close> per index, in order.\<close>

fun new_blocks :: "transformer_cfg \<Rightarrow> transformer_weights \<Rightarrow> nat list \<Rightarrow> error + block list" where
  "new_blocks cfg w [] = Inr []"
| "new_blocks cfg w (i # is) =
     bind (Block_init (tl_n_embd cfg) (tl_n_head cfg) (tl_dropout cfg)) (\<lambda>bc.
     bind (new_blocks cfg w is) (\<lambda>bs.
     Inr (Block_build bc (nat (tl_n_embd cfg)) (tw_blocks w i) # bs)))"

text \<open>
  \<^verbatim>\<open>TransformerLayer.build\<close>; \<open>input_shape\<close> is the shape \<open>(B, T)\<close> of the first
  input, and the position table gets \<open>input_shape[1]\<close> rows.
\<close>

definition TransformerLayer_build ::
  "transformer_cfg \<Rightarrow> nat \<times> nat \<Rightarrow> transformer_weights \<Rightarrow> error + transformerlayer" where
  "TransformerLayer_build cfg input_shape w =
     bind (new_blocks cfg w [0..<n_block cfg]) (\<lambda>bs.
     Inr \<lparr>vocab_size = vocab_size cfg, tl_n_embd = tl_n_embd cfg, tl_n_head = tl_n_head cfg,
          tl_dropout = tl_dropout cfg, n_block = n_block cfg,
          block_size = snd input_shape,
          token_embedding_table =
            \<lparr>input_dim = vocab_size cfg, output_dim = nat (tl_n_embd cfg), table = tw_token w\<rparr>,
          position_embedding_table =
            \<lparr>input_dim = snd input_shape, output_dim = nat (tl_n_embd cfg),
             table = tw_position w\<rparr>,
          blocks = bs,
          ln_f = LayerNormalization (1 / 10 ^ 5) (nat (tl_n_embd cfg)) (tw_ln_f w),
          lm_head = \<lparr>units = vocab_size cfg, use_bias = True, in_dim = nat (tl_n_embd cfg),
                     kernel = aw_kernel (tw_lm_head w), bias = aw_bias (tw_lm_head w)\<rparr>\<rparr>)"

text \<open>\<^verbatim>\<open>keras.Sequential\<close> of the blocks: each block's output is the next one's input.\<close>

fun Sequential_call :: "block list \<Rightarrow> bool \<Rightarrow> (nat \<Rightarrow> draws) \<Rightarrow> tensor3 \<Rightarrow> error + tensor3" where
  "Sequential_call [] training ds x = Inr x"
| "Sequential_call (b # bs) training ds x =
     bind (Block_call b training (ds 0) x) (\<lambda>y.
     Sequential_call bs training (\<lambda>i. ds (Suc i)) y)"

text \<open>Lines 123 to 125: token embeddings plus position embeddings.\<close>

definition TransformerLayer_embed :: "transformerlayer \<Rightarrow> itensor2 \<Rightarrow> error + tensor3" where
  "TransformerLayer_embed lyr idx =
     bind (Embedding_call (token_embedding_table lyr) idx) (\<lambda>tok_emb.
     bind (Embedding_range (position_embedding_table lyr) (block_size lyr)) (\<lambda>pos_emb.
     tensor_add_rank2 tok_emb pos_emb))"

text \<open>Lines 126 and 127: the blocks and the final normalisation.\<close>

definition TransformerLayer_features ::
  "transformerlayer \<Rightarrow> bool \<Rightarrow> (nat \<Rightarrow> draws) \<Rightarrow> itensor2 \<Rightarrow> error + tensor3" where
  "TransformerLayer_features lyr training ds idx =
     bind (TransformerLayer_embed lyr idx) (\<lambda>x.
     bind (Sequential_call (blocks lyr) training ds x) (\<lambda>x.
     LayerNormalization_call (ln_f lyr) x))"

definition TransformerLayer_call ::
  "transformerlayer \<Rightarrow> bool \<Rightarrow> (nat \<Rightarrow> draws) \<Rightarrow> itensor2 \<Rightarrow> error + tensor3" where
  "TransformerLayer_call lyr training ds idx =
     bind (TransformerLayer_features lyr training ds idx) (\<lambda>x.
     Dense_call (lm_head lyr) x)"

section \<open>Example parameters and inputs\<close>

text \<open>
  Concrete weights, draws and inputs at which the theorems below are instantiated: every
  normalisation has scale 1 and shift 0, every kernel entry is 1 and every bias 0 (the
  query kernel of the attention layer is 0), every draw keeps every entry.
\<close>

definition unit_ln_weights :: ln_weights where
  "unit_ln_weights = \<lparr>gamma = (\<lambda>c. 1), beta = (\<lambda>c. 0)\<rparr>"

definition unit_affine_weights :: affine_weights where
  "unit_affine_weights = \<lparr>aw_kernel = (\<lambda>c f. 1), aw_bias = (\<lambda>f. 0)\<rparr>"

definition unit_mha_weights :: mha_weights where
  "unit_mha_weights =
     \<lparr>w_query = (\<lambda>c n h. 0), b_query = (\<lambda>n h. 0), w_key = (\<lambda>c n h. 1), b_key = (\<lambda>n h. 0),
      w_value = (\<lambda>c n h. 1), b_value = (\<lambda>n h. 0), w_out = (\<lambda>n h e. 1), b_out = (\<lambda>e. 0)\<rparr>"

definition unit_ff_weights :: ff_weights where
  "unit_ff_weights =
     \<lparr>ffw_ln = unit_ln_weights, ffw_conv1 = unit_affine_weights, ffw_conv2 = unit_affine_weights\<rparr>"

definition unit_block_weights :: block_weights where
  "unit_block_weights =
     \<lparr>bw_sa = unit_mha_weights, bw_ffwd = unit_ff_weights, bw_ln1 = unit_ln_weights,
      bw_ln2 = unit_ln_weights\<rparr>"

definition unit_transformer_weights :: transformer_weights where
  "unit_transformer_weights =
     \<lparr>tw_token = (\<lambda>v c. 1), tw_position = (\<lambda>t c. 1), tw_blocks = (\<lambda>i. unit_block_weights),
      tw_ln_f = unit_ln_weights, tw_lm_head = unit_affine_weights\<rparr>"

definition keep_all :: draws where
  "keep_all = \<lparr>attn_keep = (\<lambda>b n t s. True), ffwd_keep = (\<lambda>b t c. True)\<rparr>"

definition zeros3 :: "nat \<Rightarrow> nat \<Rightarrow> nat \<Rightarrow> tensor3" where
  "zeros3 b t c = \<lparr>dimB = b, dimT = t, dimC = c, at3 = (\<lambda>_ _ _. 0)\<rparr>"

definition zeros_idx :: "nat \<Rightarrow> nat \<Rightarrow> itensor2" where
  "zeros_idx b t = \<lparr>idimB = b, idimT = t, iat = (\<lambda>_ _. 0)\<rparr>"

section \<open>The attention head\<close>

lemma bidx_lt: "i < n \<Longrightarrow> bidx n i = i"
  by (auto simp: bidx_def)

lemma broadcast_dim_same: "broadcast_dim n n = Some n"
  by (simp add: broadcast_dim_def)

lemma Head_scores_built:
  assumes "shape3 x = (B, T, C)"
  shows "Head_scores (Head_build (Head_init H T p) C wk wq wv) x =
           Inr \<lparr>dimB = B, dimT = T, dimC = T,
                at3 = (\<lambda>b i j. head_raw wk wq H C x b i j / sqrt (real C_global))\<rparr>"
  using assms
  by (simp add: Head_scores_def Head_build_def Head_init_def Dense_call_def bind_def
      matmul_def permute_dimensions_021_def scale_div_def shape3_def head_raw_def)

lemma Head_weights_built:
  assumes "shape3 x = (B, T, C)" and "0 \<le> p" and "p < 1"
  shows "\<exists>wei. Head_weights (Head_build (Head_init H T p) C wk wq wv) training keep x = Inr wei
     \<and> shape3 wei = (B, T, T)
     \<and> (\<not> training \<or> p = 0 \<longrightarrow>
          (\<forall>b i j. i < T \<longrightarrow> j < T \<longrightarrow>
             at3 wei b i j = head_e wk wq H C x b i j / (\<Sum>j'<T. head_e wk wq H C x b i j')))"
  unfolding Head_weights_def Head_scores_built [OF assms(1)] head_e_def
  using assms(2,3)
  by (simp add: bind_def Softmax_call_def Head_build_def Head_init_def np_tril_ones_def
      broadcast_dim_same Dropout_call_def shape3_def bidx_lt)

lemma Head_call_built:
  assumes "shape3 x = (B, T, C)" and "0 \<le> p" and "p < 1"
  shows "\<exists>out. Head_call (Head_build (Head_init H T p) C wk wq wv) training keep x = Inr out
     \<and> shape3 out = (B, T, H)
     \<and> (\<not> training \<or> p = 0 \<longrightarrow>
          (\<forall>b i c. i < T \<longrightarrow> at3 out b i c =
             (\<Sum>k<T. head_e wk wq H C x b i k / (\<Sum>j'<T. head_e wk wq H C x b i j')
                     * (\<Sum>c'<C. at3 x b k c' * wv c' c))))"
proof -
  obtain wei where w: "Head_weights (Head_build (Head_init H T p) C wk wq wv) training keep x = Inr wei"
    "shape3 wei = (B, T, T)"
    "\<not> training \<or> p = 0 \<Longrightarrow> i < T \<Longrightarrow> j < T \<Longrightarrow> at3 wei b i j =
          head_e wk wq H C x b i j / (\<Sum>j'<T. head_e wk wq H C x b i j')" for b i j
    using Head_weights_built [OF assms, of H wk wq wv training keep] by blast
  show ?thesis
    unfolding Head_call_def w(1)
    using assms(1) w(2)
    apply (simp add: bind_def Dense_call_def Head_build_def Head_init_def matmul_def shape3_def)
    apply (intro allI impI sum.cong refl)
    apply (simp add: w(3))
    done
qed

text \<open>
  C8. For positive batch size, sequence length, channel count and head size and a dropout
  rate in \<open>[0, 1)\<close>, a head built for sequence length \<open>T\<close> and called on an input of
  shape \<open>(B, T, C)\<close> returns a tensor of shape \<open>(B, T, H)\<close>; in particular the assertion
  of line 44 does not fail and no other error is raised, in and outside training and for
  every draw.
\<close>

theorem Head_call_shape:
  assumes "shape3 x = (B, T, C)" and "0 < B" and "0 < T" and "0 < C" and "0 < H"
    and "0 \<le> p" and "p < 1"
  shows "\<exists>out. Head_call (Head_build (Head_init H T p) C wk wq wv) training keep x = Inr out
            \<and> shape3 out = (B, T, H)"
  using Head_call_built [OF assms(1,6,7), of H wk wq wv training keep] by blast

theorem Head_call_shape_witness:
  "shape3 \<lparr>dimB = 1, dimT = 2, dimC = 1, at3 = (\<lambda>b t c. if t = 1 then 2 else 0)\<rparr> = (1, 2, 1) \<and> (0::nat) < 1 \<and> (0::nat) < 2 \<and> (0::real) \<le> 0 \<and> (0::real) < 1 \<and>
   (\<exists>out. Head_call (Head_build (Head_init 1 2 0) 1 (\<lambda>c h. 1) (\<lambda>c h. 1) (\<lambda>c h. 1)) False (\<lambda>b i j. True) \<lparr>dimB = 1, dimT = 2, dimC = 1, at3 = (\<lambda>b t c. if t = 1 then 2 else 0)\<rparr> = Inr out \<and> shape3 out = (1, 2, 1))"
  using Head_call_shape [of "\<lparr>dimB = 1, dimT = 2, dimC = 1, at3 = (\<lambda>b t c. if t = 1 then 2 else 0)\<rparr>" 1 2 1 1 0 "\<lambda>c h. 1" "\<lambda>c h. 1" "\<lambda>c h. 1" False "\<lambda>b i j. True"]
  by (simp add: shape3_def)

lemma sqrt5_lt_3: "sqrt 5 < 3"
  by (rule real_less_lsqrt) simp_all

lemma masked_score_wins:
  "(100000 * 100000) / sqrt (real C_global)
     < (100000 * 130000) / sqrt (real C_global) + large_compatible_negative"
proof -
  have pos: "0 < sqrt 5" by simp
  have "10 ^ 9 * sqrt 5 < (3 * 10 ^ 9 :: real)"
    using sqrt5_lt_3 by simp
  then have "(10 ^ 9 :: real) < 3 * 10 ^ 9 / sqrt 5"
    using pos by (simp add: pos_less_divide_eq)
  then show ?thesis
    by (simp add: C_global_def large_compatible_negative_def field_simps)
qed

lemma half_lt_share:
  fixes a b :: real
  assumes "0 < a" and "a < b"
  shows "1 / 2 < b / (a + b)" and "a / (a + b) < 1 / 2"
  using assms by (simp_all add: field_simps)

lemma weighted_le:
  fixes a b :: real
  assumes "0 < a" and "0 < b"
  shows "a / (a + b) * 100000 + b / (a + b) * 0 \<le> 100000"
proof -
  define u where "u = a / (a + b)"
  have "u \<le> 1"
    unfolding u_def using assms by (simp add: pos_divide_le_eq)
  then have "u * 100000 + b / (a + b) * 0 \<le> 100000"
    by simp
  then show ?thesis
    unfolding u_def .
qed

lemma weighted_gt:
  fixes a b :: real
  assumes "0 < a" and "a < b"
  shows "115000 < a / (a + b) * 100000 + b / (a + b) * 130000"
proof -
  define u where "u = a / (a + b)"
  define v where "v = b / (a + b)"
  have "u + v = 1"
    unfolding u_def v_def using assms by (simp add: add_divide_distrib [symmetric])
  moreover have "1 / 2 < v"
    unfolding v_def using half_lt_share(1) [OF assms] .
  ultimately have "115000 < u * 100000 + v * 130000"
    by linarith
  then show ?thesis
    unfolding u_def v_def .
qed

text \<open>
  C4. The mask does not make the weights of future positions 0: it lowers their scores by
  \<open>10 ^ 9\<close> and the softmax runs over all positions. For a head of size 1 built for
  sequence length 2 on one channel, with every kernel entry 1 and dropout rate 0, and the
  input \<open>100000\<close> at position 0 and \<open>130000\<close> at position 1, the scaled scores of
  row 0 are \<open>10 ^ 10 / sqrt 5\<close> at position 0 and \<open>13 * 10 ^ 9 / sqrt 5\<close> at the future
  position 1, and the latter is still the larger after the mask: the future position gets
  more than half of the weight of row 0, and the weights of the allowed positions sum to
  less than a half, not to 1.
\<close>

theorem Head_weights_future_position_dominates:
  "\<exists>wei. Head_weights (Head_build (Head_init 1 2 0) 1 (\<lambda>c h. 1) (\<lambda>c h. 1) (\<lambda>c h. 1)) False
            (\<lambda>b i j. True)
            \<lparr>dimB = 1, dimT = 2, dimC = 1, at3 = (\<lambda>b t c. if t = 0 then 100000 else 130000)\<rparr>
          = Inr wei
      \<and> 1 / 2 < at3 wei 0 0 1
      \<and> (\<Sum>j\<le>0. at3 wei 0 0 j) < 1 / 2"
proof -
  let ?x = "\<lparr>dimB = 1, dimT = 2, dimC = 1, at3 = (\<lambda>b t c. if t = 0 then 100000 else 130000)\<rparr>"
  let ?e = "head_e (\<lambda>c h. 1) (\<lambda>c h. 1) 1 1 ?x 0 0"
  have s: "shape3 ?x = (1, 2, 1)" by (simp add: shape3_def)
  obtain wei where w:
    "Head_weights (Head_build (Head_init 1 2 0) 1 (\<lambda>c h. 1) (\<lambda>c h. 1) (\<lambda>c h. 1)) False
       (\<lambda>b i j. True) ?x = Inr wei"
    "\<And>b i j. i < 2 \<Longrightarrow> j < 2 \<Longrightarrow> at3 wei b i j =
       head_e (\<lambda>c h. 1) (\<lambda>c h. 1) 1 1 ?x b i j / (\<Sum>j'<2. head_e (\<lambda>c h. 1) (\<lambda>c h. 1) 1 1 ?x b i j')"
    using Head_weights_built [OF s, of 0 1 "\<lambda>c h. 1" "\<lambda>c h. 1" "\<lambda>c h. 1" False "\<lambda>b i j. True"]
    by auto
  have e0: "?e 0 = exp ((100000 * 100000) / sqrt (real C_global))"
    by (simp add: head_e_def head_raw_def)
  have e1: "?e 1 = exp ((100000 * 130000) / sqrt (real C_global) + large_compatible_negative)"
    by (simp add: head_e_def head_raw_def)
  have lt: "?e 0 < ?e 1"
    unfolding e0 e1 using masked_score_wins by simp
  have pos: "0 < ?e 0"
    unfolding e0 by simp
  have sum2: "(\<Sum>j'<2. ?e j') = ?e 0 + ?e 1"
    by (simp add: numeral_2_eq_2)
  have w1: "at3 wei 0 0 1 = ?e 1 / (?e 0 + ?e 1)"
    using w(2) [of 0 1 0] sum2 by simp
  have w0: "at3 wei 0 0 0 = ?e 0 / (?e 0 + ?e 1)"
    using w(2) [of 0 0 0] sum2 by simp
  have "1 / 2 < at3 wei 0 0 1"
    unfolding w1 using half_lt_share(1) [OF pos lt] .
  moreover have "(\<Sum>j\<le>0. at3 wei 0 0 j) < 1 / 2"
    using half_lt_share(2) [OF pos lt] by (simp add: w0)
  ultimately show ?thesis
    using w(1) by blast
qed

text \<open>
  C5. The head is not causal on the same input: with \<open>100000\<close> at position 0, changing
  position 1 from \<open>0\<close> to \<open>130000\<close> moves the output at position 0 from at most
  \<open>100000\<close> to more than \<open>115000\<close>, because the future position then carries more
  than half of the weight of row 0.
\<close>

theorem Head_call_future_input_changes_output:
  "\<exists>out out'.
     Head_call (Head_build (Head_init 1 2 0) 1 (\<lambda>c h. 1) (\<lambda>c h. 1) (\<lambda>c h. 1)) False
       (\<lambda>b i j. True)
       \<lparr>dimB = 1, dimT = 2, dimC = 1, at3 = (\<lambda>b t c. if t = 0 then 100000 else 0)\<rparr> = Inr out \<and>
     Head_call (Head_build (Head_init 1 2 0) 1 (\<lambda>c h. 1) (\<lambda>c h. 1) (\<lambda>c h. 1)) False
       (\<lambda>b i j. True)
       \<lparr>dimB = 1, dimT = 2, dimC = 1, at3 = (\<lambda>b t c. if t = 0 then 100000 else 130000)\<rparr> = Inr out' \<and>
     at3 out 0 0 0 \<le> 100000 \<and> 115000 < at3 out' 0 0 0"
proof -
  let ?x = "\<lparr>dimB = 1, dimT = 2, dimC = 1, at3 = (\<lambda>b t c. if t = 0 then 100000 else 0)\<rparr>"
  let ?x' = "\<lparr>dimB = 1, dimT = 2, dimC = 1, at3 = (\<lambda>b t c. if t = 0 then 100000 else 130000)\<rparr>"
  let ?h = "Head_build (Head_init 1 2 0) 1 (\<lambda>c h. 1) (\<lambda>c h. 1) (\<lambda>c h. 1)"
  let ?e = "head_e (\<lambda>c h. 1) (\<lambda>c h. 1) 1 1"
  have s: "shape3 ?x = (1, 2, 1)" and s': "shape3 ?x' = (1, 2, 1)"
    by (simp_all add: shape3_def)
  obtain out where o: "Head_call ?h False (\<lambda>b i j. True) ?x = Inr out"
    "\<And>b i c. i < 2 \<Longrightarrow> at3 out b i c =
       (\<Sum>k<2. ?e ?x b i k / (\<Sum>j'<2. ?e ?x b i j') * (\<Sum>c'<1. at3 ?x b k c' * 1))"
    using Head_call_built [OF s, of 0 1 "\<lambda>c h. 1" "\<lambda>c h. 1" "\<lambda>c h. 1" False "\<lambda>b i j. True"]
    by auto
  obtain out' where o': "Head_call ?h False (\<lambda>b i j. True) ?x' = Inr out'"
    "\<And>b i c. i < 2 \<Longrightarrow> at3 out' b i c =
       (\<Sum>k<2. ?e ?x' b i k / (\<Sum>j'<2. ?e ?x' b i j') * (\<Sum>c'<1. at3 ?x' b k c' * 1))"
    using Head_call_built [OF s', of 0 1 "\<lambda>c h. 1" "\<lambda>c h. 1" "\<lambda>c h. 1" False "\<lambda>b i j. True"]
    by auto
  have pos: "0 < ?e y 0 0 k" for y k
    by (simp add: head_e_def)
  have out0: "at3 out 0 0 0 =
      ?e ?x 0 0 0 / (?e ?x 0 0 0 + ?e ?x 0 0 1) * 100000
      + ?e ?x 0 0 1 / (?e ?x 0 0 0 + ?e ?x 0 0 1) * 0"
    using o(2) [of 0 0 0] by (simp add: numeral_2_eq_2)
  have out0': "at3 out' 0 0 0 =
      ?e ?x' 0 0 0 / (?e ?x' 0 0 0 + ?e ?x' 0 0 1) * 100000
      + ?e ?x' 0 0 1 / (?e ?x' 0 0 0 + ?e ?x' 0 0 1) * 130000"
    using o'(2) [of 0 0 0] by (simp add: numeral_2_eq_2)
  have e0: "?e ?x' 0 0 0 = exp ((100000 * 100000) / sqrt (real C_global))"
    by (simp add: head_e_def head_raw_def)
  have e1: "?e ?x' 0 0 1 = exp ((100000 * 130000) / sqrt (real C_global) + large_compatible_negative)"
    by (simp add: head_e_def head_raw_def)
  have lt: "?e ?x' 0 0 0 < ?e ?x' 0 0 1"
    unfolding e0 e1 using masked_score_wins by simp
  have "at3 out 0 0 0 \<le> 100000"
    unfolding out0 by (rule weighted_le) (rule pos)+
  moreover have "115000 < at3 out' 0 0 0"
    unfolding out0' by (rule weighted_gt) (rule pos, rule lt)
  ultimately show ?thesis
    using o(1) o'(1) by blast
qed

text \<open>
  C2. The divisor of the scores is the square root of the module-level \<open>C\<close>, which is 5,
  and not the square root of the head size: for the head of the module's own script,
  \<^verbatim>\<open>Head(3, 8, 0)\<close> on an input of shape \<open>(32, 8, 5)\<close>, here with every input entry
  \<open>1/2\<close> and every kernel entry 1, the raw affinity \<open>75/4\<close> is divided by \<open>sqrt 5\<close>,
  which differs from the division by \<open>sqrt 3\<close>.
\<close>

theorem Head_scores_scaled_by_global_C:
  "\<exists>s. Head_scores (Head_build (Head_init 3 8 0) 5 (\<lambda>c h. 1) (\<lambda>c h. 1) (\<lambda>c h. 1))
          \<lparr>dimB = 32, dimT = 8, dimC = 5, at3 = (\<lambda>b t c. 1 / 2)\<rparr> = Inr s
      \<and> at3 s 0 0 0 = (75 / 4) / sqrt 5
      \<and> at3 s 0 0 0 \<noteq> (75 / 4) / sqrt (real (head_size (Head_init 3 8 0)))"
  by (simp add: Head_scores_def Head_build_def Head_init_def Dense_call_def bind_def
      matmul_def permute_dimensions_021_def scale_div_def C_global_def)

section \<open>The multi-head layer\<close>

text \<open>
  C1. The multi-head layer is called with \<^verbatim>\<open>attention_mask=None\<close> and has no causal
  mask: with one head of size 1, a zero query kernel and unit key, value and output
  kernels, the output at position 0 is the mean of the two input positions, so changing
  the input at position 1 from 0 to 2 changes the output at position 0 from 0 to 1.
\<close>

theorem sa_call_leaks_future:
  "\<exists>out out'.
     sa_call (multi_head_self_attention_layer 1 1 None 1
        \<lparr>w_query = (\<lambda>c n h. 0), b_query = (\<lambda>n h. 0), w_key = (\<lambda>c n h. 1), b_key = (\<lambda>n h. 0),
        w_value = (\<lambda>c n h. 1), b_value = (\<lambda>n h. 0), w_out = (\<lambda>n h e. 1), b_out = (\<lambda>e. 0)\<rparr>)
        False (\<lambda>b n t s. True) \<lparr>dimB = 1, dimT = 2, dimC = 1, at3 = (\<lambda>b t c. 0)\<rparr> = Inr out \<and>
     sa_call (multi_head_self_attention_layer 1 1 None 1
        \<lparr>w_query = (\<lambda>c n h. 0), b_query = (\<lambda>n h. 0), w_key = (\<lambda>c n h. 1), b_key = (\<lambda>n h. 0),
        w_value = (\<lambda>c n h. 1), b_value = (\<lambda>n h. 0), w_out = (\<lambda>n h e. 1), b_out = (\<lambda>e. 0)\<rparr>)
        False (\<lambda>b n t s. True)
        \<lparr>dimB = 1, dimT = 2, dimC = 1, at3 = (\<lambda>b t c. if t = 1 then 2 else 0)\<rparr> = Inr out' \<and>
     at3 out 0 0 0 = 0 \<and> at3 out' 0 0 0 = 1"
  by (simp add: sa_call_def multi_head_self_attention_layer_def MultiHeadAttention_def
      MultiHeadAttention_call_def mha_weights_of_def mha_allowed_def mha_scores_def
      mha_query_def mha_key_def mha_value_def numeral_2_eq_2)

section \<open>Construction of a block\<close>

text \<open>
  C7. A block whose embedding width is not a multiple of its head count is refused at
  construction with an AssertionError, and no configuration is returned; when the width
  is a multiple, construction succeeds and the head size is the exact quotient; and
  whenever construction succeeds, head size times head count is the embedding width, so
  no remainder is ever dropped.
\<close>

theorem Block_init_divisibility:
  "(nh \<noteq> 0 \<and> ne mod nh \<noteq> 0 \<longrightarrow> Block_init ne nh d = Inl AssertionError) \<and>
   (nh \<noteq> 0 \<and> ne mod nh = 0 \<longrightarrow>
      (\<exists>cfg. Block_init ne nh d = Inr cfg \<and> n_embd cfg = ne \<and> n_head cfg = nh \<and>
             block_head_size cfg = ne div nh \<and> block_head_size cfg * nh = ne)) \<and>
   (Block_init ne nh d = Inr c \<longrightarrow>
      nh \<noteq> 0 \<and> ne mod nh = 0 \<and> block_head_size c * n_head c = n_embd c)"
  by (auto simp: Block_init_def)

theorem Block_init_divisibility_witness:
  "(2::int) \<noteq> 0 \<and> (5::int) mod 2 \<noteq> 0 \<and> Block_init 5 2 0 = Inl AssertionError \<and>
   (6::int) mod 2 = 0 \<and>
   (\<exists>cfg. Block_init 6 2 0 = Inr cfg \<and> n_embd cfg = 6 \<and> n_head cfg = 2 \<and>
          block_head_size cfg = 3 \<and> block_head_size cfg * n_head cfg = n_embd cfg)"
proof -
  have fails: "Block_init 5 2 0 = Inl AssertionError"
    using Block_init_divisibility [of 2 5 0] by simp
  obtain cfg where cfg: "Block_init 6 2 0 = Inr cfg" "n_embd cfg = 6" "n_head cfg = 2"
    "block_head_size cfg = 6 div 2"
    using Block_init_divisibility [of 2 6 0] by auto
  have "block_head_size cfg * n_head cfg = n_embd cfg"
    using Block_init_divisibility [of 2 6 0 cfg] cfg(1) by simp
  with fails cfg show ?thesis by auto
qed

section \<open>The feed-forward network\<close>

lemma LayerNormalization_call_shape:
  assumes "shape3 x = (B, T, C)"
  shows "\<exists>y. LayerNormalization_call (LayerNormalization eps C w) x = Inr y \<and> shape3 y = (B, T, C)"
  using assms by (simp add: LayerNormalization_call_def LayerNormalization_def shape3_def)

lemma Conv1D_call_shape:
  assumes "shape3 x = (B, T, C)"
  shows "\<exists>y. Conv1D_call (Conv1D f act C w) x = Inr y \<and> shape3 y = (B, T, f)
     \<and> (\<forall>b t e. at3 y b t e =
          (let z = (\<Sum>c<C. at3 x b t c * aw_kernel w c e) + aw_bias w e
           in if act then max 0 z else z))"
  using assms by (simp add: Conv1D_call_def Conv1D_def shape3_def)

lemma FeedForward_call_built:
  assumes "shape3 x = (B, T, n)" and "0 \<le> p" and "p < 1"
  shows "\<exists>out. FeedForward_call (FeedForward_build (FeedForward_init n p) n w) training keep x
                 = Inr out \<and> shape3 out = (B, T, n)"
  using assms
  by (simp add: FeedForward_call_def FeedForward_hidden_def FeedForward_build_def
      FeedForward_init_def bind_def LayerNormalization_call_def LayerNormalization_def
      Conv1D_call_def Conv1D_def Dropout_call_def shape3_def)

text \<open>
  C3, as amended. The feed-forward network normalises its input, maps the channels to a
  hidden layer of exactly 4 channels (a constant, whatever the embedding width) by a
  learned affine map followed by the rectified-linear activation, and maps the 4 channels
  to \<open>n_embd\<close> channels by a second learned affine map; for every input of shape
  \<open>(B, T, n_embd)\<close> with positive sizes and every dropout rate in \<open>[0, 1)\<close> the call
  returns, and its output has the shape of its input.
\<close>

theorem FeedForward_call_shape:
  assumes "shape3 x = (B, T, n)" and "0 < B" and "0 < T" and "0 < n"
    and "0 \<le> p" and "p < 1"
  shows "\<exists>y h out.
           LayerNormalization_call (net_ln (FeedForward_build (FeedForward_init n p) n w)) x = Inr y \<and>
           FeedForward_hidden (FeedForward_build (FeedForward_init n p) n w) x = Inr h \<and>
           shape3 h = (B, T, 4) \<and>
           (\<forall>b t f. at3 h b t f =
              max 0 ((\<Sum>c<n. at3 y b t c * aw_kernel (ffw_conv1 w) c f) + aw_bias (ffw_conv1 w) f)) \<and>
           FeedForward_call (FeedForward_build (FeedForward_init n p) n w) training keep x = Inr out \<and>
           shape3 out = shape3 x \<and>
           (\<not> training \<or> p = 0 \<longrightarrow>
              (\<forall>b t e. at3 out b t e =
                 (\<Sum>f<4. at3 h b t f * aw_kernel (ffw_conv2 w) f e) + aw_bias (ffw_conv2 w) e))"
  using assms
  by (simp add: FeedForward_call_def FeedForward_hidden_def FeedForward_build_def
      FeedForward_init_def bind_def LayerNormalization_call_def LayerNormalization_def
      Conv1D_call_def Conv1D_def Dropout_call_def shape3_def)

theorem FeedForward_call_shape_witness:
  "shape3 (zeros3 1 1 5) = (1, 1, 5) \<and> (0::nat) < 1 \<and> (0::nat) < 5 \<and>
   (0::real) \<le> 0 \<and> (0::real) < 1 \<and>
   (\<exists>h out.
      FeedForward_hidden (FeedForward_build (FeedForward_init 5 0) 5 unit_ff_weights)
        (zeros3 1 1 5) = Inr h \<and> shape3 h = (1, 1, 4) \<and>
      FeedForward_call (FeedForward_build (FeedForward_init 5 0) 5 unit_ff_weights) False
        (\<lambda>b t c. True) (zeros3 1 1 5) = Inr out \<and> shape3 out = (1, 1, 5))"
proof -
  have s: "shape3 (zeros3 1 1 5) = (1, 1, 5)"
    by (simp add: zeros3_def shape3_def)
  from FeedForward_call_shape [OF s, of 0 unit_ff_weights False "\<lambda>b t c. True"] s
  show ?thesis by auto
qed

text \<open>
  The hidden width is not \<open>4 * n_embd\<close>: for \<open>n_embd = 5\<close> the hidden layer has 4
  channels, not 20.
\<close>

theorem FeedForward_hidden_width_counterexample:
  "\<exists>y. FeedForward_hidden (FeedForward_build (FeedForward_init 5 0) 5 unit_ff_weights)
          (zeros3 1 1 5) = Inr y
      \<and> shape3 y = (1, 1, 4)
      \<and> dimC y \<noteq> 4 * ff_n_embd (FeedForward_init 5 0)"
  by (simp add: FeedForward_hidden_def FeedForward_build_def FeedForward_init_def bind_def
      LayerNormalization_call_def LayerNormalization_def Conv1D_call_def Conv1D_def shape3_def
      zeros3_def)

section \<open>The block\<close>

lemma sa_call_shape:
  assumes "shape3 x = (B, T, c)"
  shows "\<exists>a. sa_call (multi_head_self_attention_layer nh hs dr c w) training keep x = Inr a
            \<and> shape3 a = (B, T, nh * hs)"
  using assms
  by (simp add: sa_call_def multi_head_self_attention_layer_def MultiHeadAttention_def
      MultiHeadAttention_call_def shape3_def)

lemma tensor_add_same:
  assumes "shape3 x = (B, T, C)" and "shape3 y = (B, T, C)"
  shows "\<exists>z. tensor_add x y = Inr z \<and> shape3 z = (B, T, C)
            \<and> (\<forall>b<B. \<forall>t<T. \<forall>c<C. at3 z b t c = at3 x b t c + at3 y b t c)"
  using assms
  by (simp add: tensor_add_def shape3_def broadcast_dim_same bidx_lt)

lemma head_count_times_size:
  assumes "0 < nh" and "0 < ne" and "ne mod nh = 0"
  shows "nat nh * nat (ne div nh) = nat ne"
proof -
  have "nh * (ne div nh) = ne"
    using assms(3) by (simp add: mod_eq_0_iff_dvd)
  moreover have "nat (nh * (ne div nh)) = nat nh * nat (ne div nh)"
    using assms(1) by (simp add: nat_mult_distrib)
  ultimately show ?thesis by simp
qed

lemma residual_dim_same: "residual_dim c c = c"
  by (simp add: residual_dim_def broadcast_dim_same)

lemma Block_build_parts:
  assumes "Block_init ne nh p = Inr cfg" and "0 < nh" and "0 < ne"
  shows "sa (Block_build cfg (nat ne) w)
           = multi_head_self_attention_layer (nat nh) (nat (ne div nh)) None (nat ne) (bw_sa w)"
    and "ffwd (Block_build cfg (nat ne) w)
           = FeedForward_build (FeedForward_init (nat ne) p) (nat ne) (bw_ffwd w)"
    and "ln1 (Block_build cfg (nat ne) w) = LayerNormalization (1 / 10 ^ 5) (nat ne) (bw_ln1 w)"
    and "ln2 (Block_build cfg (nat ne) w) = LayerNormalization (1 / 10 ^ 5) (nat ne) (bw_ln2 w)"
proof -
  have cfg: "cfg = \<lparr>n_embd = ne, n_head = nh, block_head_size = ne div nh, block_dropout = p\<rparr>"
    and m: "ne mod nh = 0"
    using assms(1) by (auto simp: Block_init_def split: if_splits)
  have r: "residual_dim (nat ne) (nat nh * nat (ne div nh)) = nat ne"
    using head_count_times_size [OF assms(2,3) m] by (simp add: residual_dim_same)
  show "sa (Block_build cfg (nat ne) w)
           = multi_head_self_attention_layer (nat nh) (nat (ne div nh)) None (nat ne) (bw_sa w)"
    by (simp add: Block_build_def cfg Let_def)
  show "ffwd (Block_build cfg (nat ne) w)
           = FeedForward_build (FeedForward_init (nat ne) p) (nat ne) (bw_ffwd w)"
    by (simp add: Block_build_def cfg r Let_def)
  show "ln1 (Block_build cfg (nat ne) w) = LayerNormalization (1 / 10 ^ 5) (nat ne) (bw_ln1 w)"
    by (simp add: Block_build_def cfg Let_def)
  show "ln2 (Block_build cfg (nat ne) w) = LayerNormalization (1 / 10 ^ 5) (nat ne) (bw_ln2 w)"
    by (simp add: Block_build_def cfg r Let_def)
qed

lemma Block_call_steps:
  assumes "Block_init ne nh p = Inr cfg" and "0 < nh" and "0 < ne"
    and "shape3 x = (B, T, nat ne)" and "0 < B" and "0 < T"
    and "0 \<le> p" and "p < 1"
  shows "\<exists>y a x1 y2 f out.
           LayerNormalization_call (ln1 (Block_build cfg (nat ne) w)) x = Inr y \<and>
           sa_call (sa (Block_build cfg (nat ne) w)) training (attn_keep d) y = Inr a \<and>
           tensor_add x a = Inr x1 \<and>
           (\<forall>b<B. \<forall>t<T. \<forall>c<nat ne. at3 x1 b t c = at3 x b t c + at3 a b t c) \<and>
           LayerNormalization_call (ln2 (Block_build cfg (nat ne) w)) x1 = Inr y2 \<and>
           FeedForward_call (ffwd (Block_build cfg (nat ne) w)) training (ffwd_keep d) y2 = Inr f \<and>
           tensor_add x1 f = Inr out \<and>
           (\<forall>b<B. \<forall>t<T. \<forall>c<nat ne. at3 out b t c = at3 x1 b t c + at3 f b t c) \<and>
           Block_call (Block_build cfg (nat ne) w) training d x = Inr out \<and>
           shape3 out = shape3 x \<and>
           ln1 (Block_build cfg (nat ne) w) = LayerNormalization (1 / 10 ^ 5) (nat ne) (bw_ln1 w) \<and>
           ln2 (Block_build cfg (nat ne) w) = LayerNormalization (1 / 10 ^ 5) (nat ne) (bw_ln2 w)"
proof -
  let ?blk = "Block_build cfg (nat ne) w"
  note parts = Block_build_parts [OF assms(1,2,3), of w]
  have m: "ne mod nh = 0"
    using assms(1) by (auto simp: Block_init_def split: if_splits)
  have hs: "nat nh * nat (ne div nh) = nat ne"
    by (rule head_count_times_size [OF assms(2,3) m])
  have n: "0 < nat ne" using assms(3) by simp
  obtain y where y: "LayerNormalization_call (ln1 ?blk) x = Inr y" "shape3 y = (B, T, nat ne)"
    unfolding parts using LayerNormalization_call_shape [OF assms(4)] by blast
  obtain a where a: "sa_call (sa ?blk) training (attn_keep d) y = Inr a" "shape3 a = (B, T, nat ne)"
    unfolding parts using sa_call_shape [OF y(2), of "nat nh" "nat (ne div nh)" None "bw_sa w" training "attn_keep d"]
    unfolding hs by blast
  obtain x1 where x1: "tensor_add x a = Inr x1" "shape3 x1 = (B, T, nat ne)"
    "\<forall>b<B. \<forall>t<T. \<forall>c<nat ne. at3 x1 b t c = at3 x b t c + at3 a b t c"
    using tensor_add_same [OF assms(4) a(2)] by blast
  obtain y2 where y2: "LayerNormalization_call (ln2 ?blk) x1 = Inr y2" "shape3 y2 = (B, T, nat ne)"
    unfolding parts using LayerNormalization_call_shape [OF x1(2)] by blast
  obtain f where f: "FeedForward_call (ffwd ?blk) training (ffwd_keep d) y2 = Inr f"
    "shape3 f = (B, T, nat ne)"
    unfolding parts using FeedForward_call_built [OF y2(2) assms(7,8), of "bw_ffwd w" training "ffwd_keep d"]
    by blast
  obtain out where out: "tensor_add x1 f = Inr out" "shape3 out = (B, T, nat ne)"
    "\<forall>b<B. \<forall>t<T. \<forall>c<nat ne. at3 out b t c = at3 x1 b t c + at3 f b t c"
    using tensor_add_same [OF x1(2) f(2)] by blast
  have call: "Block_call ?blk training d x = Inr out"
    by (simp add: Block_call_def Block_attention_def Block_feedforward_def bind_def y a x1 y2 f out)
  show ?thesis
    using y(1) a(1) x1(1,3) y2(1) f(1) out call assms(4) parts(3,4) by auto
qed

text \<open>
  C6. For a block that was constructed successfully with positive embedding width and
  head count and a dropout rate in \<open>[0, 1)\<close> and is called on an input of shape \<open>(B, T, n_embd)\<close>, every step of
  \<^verbatim>\<open>Block.call\<close> returns: the first normalisation, the attention on its result, the sum
  of the input and the attention output, the second normalisation of that sum, the
  feed-forward network on its result, and the sum of the first sum and the feed-forward
  output, which is the result of the call; the result has the shape of the input; the two
  normalisations are separate layers, each with its own scale and shift.
\<close>

theorem Block_call_residual:
  assumes "Block_init ne nh p = Inr cfg" and "0 < nh" and "0 < ne"
    and "shape3 x = (B, T, nat ne)" and "0 < B" and "0 < T"
    and "0 \<le> p" and "p < 1"
  shows "\<exists>y a x1 y2 f out.
           LayerNormalization_call (ln1 (Block_build cfg (nat ne) w)) x = Inr y \<and>
           sa_call (sa (Block_build cfg (nat ne) w)) training (attn_keep d) y = Inr a \<and>
           tensor_add x a = Inr x1 \<and>
           (\<forall>b<B. \<forall>t<T. \<forall>c<nat ne. at3 x1 b t c = at3 x b t c + at3 a b t c) \<and>
           LayerNormalization_call (ln2 (Block_build cfg (nat ne) w)) x1 = Inr y2 \<and>
           FeedForward_call (ffwd (Block_build cfg (nat ne) w)) training (ffwd_keep d) y2 = Inr f \<and>
           tensor_add x1 f = Inr out \<and>
           (\<forall>b<B. \<forall>t<T. \<forall>c<nat ne. at3 out b t c = at3 x1 b t c + at3 f b t c) \<and>
           Block_call (Block_build cfg (nat ne) w) training d x = Inr out \<and>
           shape3 out = shape3 x \<and>
           ln1 (Block_build cfg (nat ne) w) = LayerNormalization (1 / 10 ^ 5) (nat ne) (bw_ln1 w) \<and>
           ln2 (Block_build cfg (nat ne) w) = LayerNormalization (1 / 10 ^ 5) (nat ne) (bw_ln2 w)"
  using assms by (rule Block_call_steps)

theorem Block_call_residual_witness:
  "Block_init 2 1 0 = Inr \<lparr>n_embd = 2, n_head = 1, block_head_size = 2, block_dropout = 0\<rparr> \<and>
   (0::int) < 1 \<and> (0::int) < 2 \<and> shape3 (zeros3 1 1 2) = (1, 1, nat 2) \<and>
   (0::real) \<le> 0 \<and> (0::real) < 1 \<and>
   (\<exists>out. Block_call
      (Block_build \<lparr>n_embd = 2, n_head = 1, block_head_size = 2, block_dropout = 0\<rparr> (nat 2)
         unit_block_weights) False keep_all (zeros3 1 1 2) = Inr out \<and>
      shape3 out = shape3 (zeros3 1 1 2))"
proof -
  have i: "Block_init 2 1 0 = Inr \<lparr>n_embd = 2, n_head = 1, block_head_size = 2, block_dropout = 0\<rparr>"
    by (simp add: Block_init_def)
  have s: "shape3 (zeros3 1 1 2) = (1, 1, nat 2)"
    by (simp add: zeros3_def shape3_def)
  from Block_call_residual [OF i _ _ s, of unit_block_weights False keep_all] i s
  show ?thesis by auto
qed

lemma sa_call_no_dropout:
  assumes "mha_dropout m = 0"
  shows "sa_call m training keep x = sa_call m training' keep' x"
  using assms
  by (simp add: sa_call_def MultiHeadAttention_call_def mha_weights_of_def)

text \<open>
  C10. \<^verbatim>\<open>Block.build\<close> creates the attention layer with dropout rate 0 whatever the
  block's dropout rate is, and the feed-forward network with the block's rate; changing
  the block's rate changes neither the attention layer nor the two normalisations, and
  the attention step of \<^verbatim>\<open>Block.call\<close> gives the same result in and outside training and
  for every random draw.
\<close>

theorem Block_build_attention_dropout:
  "mha_dropout (sa (Block_build cfg c w)) = 0 \<and>
   net_dropout (ffwd (Block_build cfg c w)) = block_dropout cfg \<and>
   sa (Block_build (cfg\<lparr>block_dropout := p\<rparr>) c w) = sa (Block_build cfg c w) \<and>
   ln1 (Block_build (cfg\<lparr>block_dropout := p\<rparr>) c w) = ln1 (Block_build cfg c w) \<and>
   ln2 (Block_build (cfg\<lparr>block_dropout := p\<rparr>) c w) = ln2 (Block_build cfg c w) \<and>
   Block_attention (Block_build (cfg\<lparr>block_dropout := p\<rparr>) c w) training d x
     = Block_attention (Block_build cfg c w) training' d' x"
proof -
  have z: "mha_dropout (sa (Block_build cfg c w)) = 0" for cfg
    by (simp add: Block_build_def Let_def multi_head_self_attention_layer_def
        MultiHeadAttention_def)
  have s: "sa (Block_build (cfg\<lparr>block_dropout := p\<rparr>) c w) = sa (Block_build cfg c w)"
    by (simp add: Block_build_def Let_def)
  have l1: "ln1 (Block_build (cfg\<lparr>block_dropout := p\<rparr>) c w) = ln1 (Block_build cfg c w)"
    by (simp add: Block_build_def Let_def)
  have l2: "ln2 (Block_build (cfg\<lparr>block_dropout := p\<rparr>) c w) = ln2 (Block_build cfg c w)"
    by (simp add: Block_build_def Let_def)
  have f: "net_dropout (ffwd (Block_build cfg c w)) = block_dropout cfg"
    by (simp add: Block_build_def Let_def FeedForward_build_def FeedForward_init_def)
  have "Block_attention (Block_build (cfg\<lparr>block_dropout := p\<rparr>) c w) training d x
     = Block_attention (Block_build cfg c w) training' d' x"
    unfolding Block_attention_def s l1
    using sa_call_no_dropout [OF z, of cfg training "attn_keep d" _ training' "attn_keep d'"]
    by simp
  with z s l1 l2 f show ?thesis by simp
qed

section \<open>The top-level layer\<close>








text \<open>
  When the position table has a single row, broadcasting makes the sum of line 125 succeed
  for a longer input: every position then gets the embedding of position 0.
\<close>

lemma TransformerLayer_call_single_position_table:
  "\<exists>lyr logits.
     TransformerLayer_build (TransformerLayer_init 2 1 1 0 0) (1, 1) unit_transformer_weights
       = Inr lyr \<and>
     TransformerLayer_call lyr False (\<lambda>i. keep_all) (zeros_idx 1 2) = Inr logits \<and>
     shape3 logits = (1, 2, 2)"
  by (simp add: TransformerLayer_build_def TransformerLayer_init_def bind_def
      TransformerLayer_call_def TransformerLayer_features_def TransformerLayer_embed_def
      Embedding_call_def Embedding_range_def tensor_add_rank2_def broadcast_dim_def zeros_idx_def
      LayerNormalization_call_def LayerNormalization_def Dense_call_def shape3_def)

end
